theory Spec2Isabelle
  imports Main "HOL-Library.Multiset" "HOL-Library.List_Lexorder"
begin

section \<open>JavaScript values\<close>

text \<open>
  The settings objects and request parameters of the print service carry untyped
  JavaScript values. The model has the primitive values the code distinguishes:
  \<open>undefined\<close> (also what reading an absent property gives), \<open>null\<close>, booleans,
  integral Numbers, \<open>NaN\<close> (what \<open>parseInt\<close> returns when no digits are found) and
  strings. Numbers are the integers that print in plain decimal notation (magnitude below
  \<open>10^21\<close>, exactly representable); fractions and infinities are outside the type.
  Strings are lists of \<open>char\<close>, read as code units below 256.
\<close>

datatype js_value = JUndefined | JNull | JBool bool | JNum int | JNaN | JStr string

text \<open>ToBoolean: \<open>!v\<close> is \<open>\<not> truthy v\<close>.\<close>

fun truthy :: "js_value \<Rightarrow> bool" where
  "truthy JUndefined = False"
| "truthy JNull = False"
| "truthy (JBool b) = b"
| "truthy (JNum n) = (n \<noteq> 0)"
| "truthy JNaN = False"
| "truthy (JStr s) = (s \<noteq> [])"

text \<open>The operator \<open>a || b\<close>.\<close>

definition js_or :: "js_value \<Rightarrow> js_value \<Rightarrow> js_value" where
  "js_or a b = (if truthy a then a else b)"

definition digit_char :: "nat \<Rightarrow> char" where
  "digit_char d = char_of (48 + d)"

fun nat_to_dec :: "nat \<Rightarrow> string" where
  "nat_to_dec n = (if n < 10 then [digit_char n] else nat_to_dec (n div 10) @ [digit_char (n mod 10)])"

declare nat_to_dec.simps [simp del]

definition int_to_dec :: "int \<Rightarrow> string" where
  "int_to_dec n = (if n < 0 then CHR ''-'' # nat_to_dec (nat (- n)) else nat_to_dec (nat n))"

text \<open>\<open>String(v)\<close> and the conversion inside a template literal.\<close>

fun js_String :: "js_value \<Rightarrow> string" where
  "js_String JUndefined = ''undefined''"
| "js_String JNull = ''null''"
| "js_String (JBool b) = (if b then ''true'' else ''false'')"
| "js_String (JNum n) = int_to_dec n"
| "js_String JNaN = ''NaN''"
| "js_String (JStr s) = s"

definition isDigit :: "char \<Rightarrow> bool" where
  "isDigit c = (c \<in> set ''0123456789'')"

text \<open>White space that \<open>parseInt\<close> and \<open>Number\<close> trim: TAB, LF, VT, FF, CR, SP, NBSP.\<close>

definition isWhiteSpace :: "char \<Rightarrow> bool" where
  "isWhiteSpace c = (of_char c \<in> set [9, 10, 11, 12, 13, 32, 160 :: nat])"

definition digit_val :: "char \<Rightarrow> nat" where
  "digit_val c = of_char c - 48"

definition dec_value :: "string \<Rightarrow> nat" where
  "dec_value ds = foldl (\<lambda>a c. 10 * a + digit_val c) 0 ds"

text \<open>
  \<open>parseInt(s, 10)\<close> on a string: leading white space is dropped, one sign is read, the
  longest run of decimal digits is the numeral; no digit gives \<open>NaN\<close> (\<open>None\<close>).
\<close>

definition parseInt10 :: "string \<Rightarrow> int option" where
  "parseInt10 s =
     (let t = dropWhile isWhiteSpace s;
          neg = (case t of [] \<Rightarrow> False | c # _ \<Rightarrow> c = CHR ''-'');
          u = (case t of [] \<Rightarrow> [] | c # r \<Rightarrow> if c = CHR ''-'' \<or> c = CHR ''+'' then r else t);
          ds = takeWhile isDigit u
      in if ds = [] then None
         else Some (if neg then - int (dec_value ds) else int (dec_value ds)))"

text \<open>\<open>parseInt(v, 10)\<close> on a value: the value is converted to a string first.\<close>

definition js_parseInt :: "js_value \<Rightarrow> js_value" where
  "js_parseInt v = (case parseInt10 (js_String v) of None \<Rightarrow> JNaN | Some n \<Rightarrow> JNum n)"

fun join :: "string \<Rightarrow> string list \<Rightarrow> string" where
  "join sep [] = []"
| "join sep [x] = x"
| "join sep (x # y # ys) = x @ sep @ join sep (y # ys)"

section \<open>models/printSettings: the settings resolver\<close>

text \<open>
  The four settings fields, over the kind of value that fills them: JavaScript values in
  a settings object, stored values in a row of the job table.
\<close>

record 'v settings_fields =
  paperType :: 'v
  printQuality :: 'v
  colorMode :: 'v
  paperSize :: 'v

text \<open>
  A settings object; a property that is absent reads as \<open>JUndefined\<close>. Properties other
  than these four are never read.
\<close>

type_synonym settings = "js_value settings_fields"

text \<open>
  What a caller may pass where a settings object is expected: a primitive value (null and
  undefined among them) or an object. Reading one of the four properties of a primitive
  that is not null or undefined gives \<open>undefined\<close>.
\<close>

datatype settings_input = Prim js_value | Obj settings

fun properties :: "settings_input \<Rightarrow> settings" where
  "properties (Prim v) =
     \<lparr>paperType = JUndefined, printQuality = JUndefined, colorMode = JUndefined, paperSize = JUndefined\<rparr>"
| "properties (Obj s) = s"

text \<open>\<open>!settings\<close>: an object is truthy.\<close>

fun falsy_input :: "settings_input \<Rightarrow> bool" where
  "falsy_input (Prim v) = (\<not> truthy v)"
| "falsy_input (Obj s) = False"

text \<open>\<open>typeof settings !== 'object'\<close>; \<open>typeof null\<close> is \<open>'object'\<close>.\<close>

fun not_typeof_object :: "settings_input \<Rightarrow> bool" where
  "not_typeof_object (Prim v) = (v \<noteq> JNull)"
| "not_typeof_object (Obj s) = False"

definition DEFAULT_SETTINGS :: settings where
  "DEFAULT_SETTINGS =
     \<lparr>paperType = JStr ''Plain Paper'', printQuality = JNum 600,
      colorMode = JStr ''Grayscale'', paperSize = JStr ''A4''\<rparr>"

record available_options =
  paperTypes :: "js_value list"
  printQualities :: "js_value list"
  colorModes :: "js_value list"
  paperSizes :: "js_value list"

definition AVAILABLE_OPTIONS :: available_options where
  "AVAILABLE_OPTIONS =
     \<lparr>paperTypes = [JStr ''Plain Paper'', JStr ''Glossy''],
      printQualities = [JNum 600, JNum 1200],
      colorModes = [JStr ''Color'', JStr ''Grayscale''],
      paperSizes = [JStr ''A4'', JStr ''Letter'', JStr ''Legal'']\<rparr>"

definition getDefaults :: settings where
  "getDefaults = DEFAULT_SETTINGS"

record validation_errors =
  errors :: "string list"

record settings_validation = validation_errors +
  isValid :: bool

text \<open>\<open>Array.prototype.includes\<close>: SameValueZero, which on these values is equality.\<close>

definition js_includes :: "js_value list \<Rightarrow> js_value \<Rightarrow> bool" where
  "js_includes xs v = (v \<in> set xs)"

definition must_be_one_of :: "js_value list \<Rightarrow> string" where
  "must_be_one_of opts = ''. Must be one of: '' @ join '', '' (map js_String opts)"

text \<open>\<open>validateSettings\<close>: only a falsy argument is refused before the fields are read.\<close>

definition validateSettings :: "settings_input \<Rightarrow> settings_validation" where
  "validateSettings si =
     (if falsy_input si then \<lparr>errors = [''Settings object is required''], isValid = False\<rparr>
      else
          (let s = properties si;
               e1 = (if paperType s \<noteq> JUndefined \<and> \<not> js_includes (paperTypes AVAILABLE_OPTIONS) (paperType s)
                     then [''Invalid paper type: '' @ js_String (paperType s)
                             @ must_be_one_of (paperTypes AVAILABLE_OPTIONS)]
                     else []);
               e2 = (if printQuality s \<noteq> JUndefined
                        \<and> \<not> js_includes (printQualities AVAILABLE_OPTIONS) (js_parseInt (printQuality s))
                     then [''Invalid print quality: '' @ js_String (printQuality s)
                             @ must_be_one_of (printQualities AVAILABLE_OPTIONS)]
                     else []);
               e3 = (if colorMode s \<noteq> JUndefined \<and> \<not> js_includes (colorModes AVAILABLE_OPTIONS) (colorMode s)
                     then [''Invalid color mode: '' @ js_String (colorMode s)
                             @ must_be_one_of (colorModes AVAILABLE_OPTIONS)]
                     else []);
               e4 = (if paperSize s \<noteq> JUndefined \<and> \<not> js_includes (paperSizes AVAILABLE_OPTIONS) (paperSize s)
                     then [''Invalid paper size: '' @ js_String (paperSize s)
                             @ must_be_one_of (paperSizes AVAILABLE_OPTIONS)]
                     else []);
               es = e1 @ e2 @ e3 @ e4
           in \<lparr>errors = es, isValid = (es = [])\<rparr>))"

definition applyDefaults :: "settings \<Rightarrow> settings" where
  "applyDefaults s =
     \<lparr>paperType = js_or (paperType s) (paperType DEFAULT_SETTINGS),
      printQuality = (if printQuality s \<noteq> JUndefined then js_parseInt (printQuality s)
                      else printQuality DEFAULT_SETTINGS),
      colorMode = js_or (colorMode s) (colorMode DEFAULT_SETTINGS),
      paperSize = js_or (paperSize s) (paperSize DEFAULT_SETTINGS)\<rparr>"

definition normalizeSettings :: "settings \<Rightarrow> settings" where
  "normalizeSettings s =
     \<lparr>paperType = JStr (js_String (js_or (paperType s) (paperType DEFAULT_SETTINGS))),
      printQuality = js_parseInt (js_or (printQuality s) (printQuality DEFAULT_SETTINGS)),
      colorMode = JStr (js_String (js_or (colorMode s) (colorMode DEFAULT_SETTINGS))),
      paperSize = JStr (js_String (js_or (paperSize s) (paperSize DEFAULT_SETTINGS)))\<rparr>"

section \<open>Errors\<close>

text \<open>A thrown JavaScript exception, with its message; a rejected promise is the same value.\<close>

datatype js_error = Error string | TypeError string | RangeError string

fun err_message :: "js_error \<Rightarrow> string" where
  "err_message (Error m) = m"
| "err_message (TypeError m) = m"
| "err_message (RangeError m) = m"

section \<open>Clock and timestamps\<close>

text \<open>
  The clock is \<open>Date.now()\<close>: milliseconds since the epoch, UTC. The calendar date of a
  day number (days since 1970-01-01) in the proleptic Gregorian calendar, which both
  JavaScript's \<open>Date\<close> and SQLite use.
\<close>

definition civil_from_days :: "int \<Rightarrow> int \<times> int \<times> int" where
  "civil_from_days z0 =
     (let z = z0 + 719468;
          era = z div 146097;
          doe = z mod 146097;
          yoe = (doe - doe div 1460 + doe div 36524 - doe div 146096) div 365;
          doy = doe - (365 * yoe + yoe div 4 - yoe div 100);
          mp = (5 * doy + 2) div 153;
          d = doy - (153 * mp + 2) div 5 + 1;
          m = (if mp < 10 then mp + 3 else mp - 9);
          y = yoe + era * 400 + (if m \<le> 2 then 1 else 0)
      in (y, m, d))"

definition pad :: "nat \<Rightarrow> int \<Rightarrow> string" where
  "pad w n = (let ds = nat_to_dec (nat n) in replicate (w - length ds) CHR ''0'' @ ds)"

definition ONE_DAY_MS :: int where
  "ONE_DAY_MS = 24 * 60 * 60 * 1000"

definition hms :: "int \<Rightarrow> string" where
  "hms secs = pad 2 (secs div 3600) @ '':'' @ pad 2 (secs mod 3600 div 60) @ '':'' @ pad 2 (secs mod 60)"

text \<open>
  \<open>new Date(t).toISOString()\<close>: \<open>YYYY-MM-DDTHH:mm:ss.sssZ\<close>; a year outside 0..9999 is
  written with a sign and six digits; a time value beyond the range of \<open>Date\<close> raises.
\<close>

definition toISOString :: "int \<Rightarrow> js_error + string" where
  "toISOString t =
     (if \<bar>t\<bar> > 8640000000000000 then Inl (RangeError ''Invalid time value'')
      else (case civil_from_days (t div ONE_DAY_MS) of (y, m, d) \<Rightarrow>
        Inr ((if 0 \<le> y \<and> y \<le> 9999 then pad 4 y
              else (if y < 0 then ''-'' else ''+'') @ pad 6 \<bar>y\<bar>)
             @ ''-'' @ pad 2 m @ ''-'' @ pad 2 d @ ''T''
             @ hms (t mod ONE_DAY_MS div 1000) @ ''.'' @ pad 3 (t mod 1000) @ ''Z'')))"

text \<open>
  SQLite's \<open>CURRENT_TIMESTAMP\<close> at clock value \<open>t\<close>: the text \<open>YYYY-MM-DD HH:MM:SS\<close>, UTC
  (SQLite supports the years 0000 to 9999).
\<close>

definition CURRENT_TIMESTAMP :: "int \<Rightarrow> string" where
  "CURRENT_TIMESTAMP t =
     (case civil_from_days (t div ONE_DAY_MS) of (y, m, d) \<Rightarrow>
        pad 4 y @ ''-'' @ pad 2 m @ ''-'' @ pad 2 d @ '' '' @ hms (t mod ONE_DAY_MS div 1000))"

text \<open>
  SQLite compares two TEXT values with \<open>memcmp\<close> under the default BINARY collation: byte
  by byte, a proper prefix being smaller.
\<close>

fun text_less :: "string \<Rightarrow> string \<Rightarrow> bool" where
  "text_less [] [] = False"
| "text_less [] (y # ys) = True"
| "text_less (x # xs) [] = False"
| "text_less (x # xs) (y # ys) =
     (if (of_char x :: nat) < of_char y then True
      else if (of_char y :: nat) < of_char x then False
      else text_less xs ys)"

section \<open>models/database: the SQLite store\<close>

text \<open>
  The fields a caller hands to \<open>createPrintJob\<close>. A falsy identifier (undefined, null, 0,
  the empty string) is the number 0 or the empty string.
\<close>

record 'v job_fields = "'v settings_fields" +
  userId :: nat
  documentName :: string
  documentPath :: string

type_synonym job_data = "js_value job_fields"

subsection \<open>Stored values and column affinity\<close>

text \<open>
  The schema declares \<open>paperType\<close>, \<open>colorMode\<close> and \<open>paperSize\<close> as TEXT and
  \<open>printQuality\<close> as INTEGER. A stored value is NULL, an integer or a text. Where the
  stored form depends on a floating-point conversion (a number bound as a double, a text
  that is a numeric literal with a fraction, an exponent or more than 64 bits), the model
  does not compute it and keeps the column type and the bound value: \<open>SqlConverted\<close>.
\<close>

datatype column_type = TEXT | INTEGER

datatype sql_value = SqlNull | SqlInteger int | SqlText string | SqlConverted column_type js_value

text \<open>The white space that SQLite skips around a numeric literal: TAB, LF, VT, FF, CR, SP.\<close>

definition isSqliteSpace :: "char \<Rightarrow> bool" where
  "isSqliteSpace c = (of_char c \<in> set [9, 10, 11, 12, 13, 32 :: nat])"

definition sqlite_trim :: "string \<Rightarrow> string" where
  "sqlite_trim s = rev (dropWhile isSqliteSpace (rev (dropWhile isSqliteSpace s)))"

definition strip_sign :: "string \<Rightarrow> string" where
  "strip_sign t = (case t of [] \<Rightarrow> [] | c # r \<Rightarrow> if c = CHR ''-'' \<or> c = CHR ''+'' then r else t)"

text \<open>A text that is an integer literal: an optional sign and decimal digits; its value.\<close>

definition integer_literal :: "string \<Rightarrow> int option" where
  "integer_literal s =
     (let t = sqlite_trim s; u = strip_sign t in
      if u \<noteq> [] \<and> list_all isDigit u
      then (let n = foldl (\<lambda>a c. 10 * a + int (digit_val c)) 0 u
            in Some (if (case t of [] \<Rightarrow> False | c # _ \<Rightarrow> c = CHR ''-'') then - n else n))
      else None)"

text \<open>
  A text that is a numeric literal: an optional sign, digits with an optional point (at
  least one digit in all), and an optional exponent with at least one digit.
\<close>

definition exponent_part :: "string \<Rightarrow> bool" where
  "exponent_part r =
     (case r of [] \<Rightarrow> True
      | c # e \<Rightarrow> (c = CHR ''e'' \<or> c = CHR ''E'') \<and> strip_sign e \<noteq> [] \<and> list_all isDigit (strip_sign e))"

definition numeric_literal :: "string \<Rightarrow> bool" where
  "numeric_literal s =
     (let u = strip_sign (sqlite_trim s);
          ds = takeWhile isDigit u; r = dropWhile isDigit u
      in case r of
           [] \<Rightarrow> ds \<noteq> []
         | c # r2 \<Rightarrow>
             if c = CHR ''.''
             then \<not> (ds = [] \<and> takeWhile isDigit r2 = []) \<and> exponent_part (dropWhile isDigit r2)
             else ds \<noteq> [] \<and> exponent_part r)"

definition is_int32 :: "int \<Rightarrow> bool" where
  "is_int32 n = (- 2147483648 \<le> n \<and> n \<le> 2147483647)"

definition is_int64 :: "int \<Rightarrow> bool" where
  "is_int64 n = (- 9223372036854775808 \<le> n \<and> n \<le> 9223372036854775807)"

text \<open>
  What a column of the given type holds after a JavaScript value is bound to it. The
  driver binds a string as text, a number with a 32-bit integer value as an integer, any
  other number as a double (\<open>NaN\<close> becomes NULL), a boolean as the integer 1 or 0, \<open>null\<close>
  as NULL; a parameter left \<open>undefined\<close> stays NULL. A TEXT column turns an integer into
  its decimal text. An INTEGER column turns a text that is an integer literal of at most
  64 bits into that integer and keeps a text that is no numeric literal as text.
\<close>

fun store_value :: "column_type \<Rightarrow> js_value \<Rightarrow> sql_value" where
  "store_value c JUndefined = SqlNull"
| "store_value c JNull = SqlNull"
| "store_value c JNaN = SqlNull"
| "store_value TEXT (JBool b) = SqlText (if b then ''1'' else ''0'')"
| "store_value INTEGER (JBool b) = SqlInteger (if b then 1 else 0)"
| "store_value TEXT (JNum n) =
     (if is_int32 n then SqlText (int_to_dec n) else SqlConverted TEXT (JNum n))"
| "store_value INTEGER (JNum n) =
     (if is_int32 n then SqlInteger n else SqlConverted INTEGER (JNum n))"
| "store_value TEXT (JStr s) = SqlText s"
| "store_value INTEGER (JStr s) =
     (case integer_literal s of
        Some n \<Rightarrow> if is_int64 n then SqlInteger n else SqlConverted INTEGER (JStr s)
      | None \<Rightarrow> if numeric_literal s then SqlConverted INTEGER (JStr s) else SqlText s)"

text \<open>
  A row of table PrintJob: the four settings columns as stored, \<open>status\<close> a TEXT column,
  \<open>submittedAt\<close> filled by \<open>DEFAULT CURRENT_TIMESTAMP\<close>, \<open>completedAt\<close> NULL (\<open>None\<close>)
  until it is written.
\<close>

record job = "sql_value job_fields" +
  row_id :: nat
  status :: string
  submittedAt :: string
  completedAt :: "string option"

text \<open>
  The database file: the ids of the rows of table User (PrintJob.userId is a foreign key
  on them, and foreign keys are enforced), the rows of PrintJob, the AUTOINCREMENT
  counter of PrintJob, and the connection's last inserted row id. The module variable
  \<open>db\<close> is \<open>None\<close> until \<open>initializeDatabase\<close> has run.
\<close>

record database =
  User :: "nat list"
  PrintJob :: "job list"
  seq :: nat
  last_insert_rowid :: nat

type_synonym db_handle = "database option"

record run_result =
  lastID :: nat
  changes :: nat

definition not_initialized :: js_error where
  "not_initialized = Error ''Database not initialized''"

text \<open>A destructuring default \<open>{ x = d }\<close>: it applies to \<open>undefined\<close> only.\<close>

definition or_default :: "js_value \<Rightarrow> js_value \<Rightarrow> js_value" where
  "or_default v d = (if v = JUndefined then d else v)"

text \<open>
  The id that \<open>INTEGER PRIMARY KEY AUTOINCREMENT\<close> assigns: one more than the larger of
  the counter and the largest id in the table (the limit of 64-bit row ids is not
  modelled).
\<close>

definition max_rowid :: "job list \<Rightarrow> nat" where
  "max_rowid js = foldr (\<lambda>j m. max (row_id j) m) js 0"

definition next_rowid :: "database \<Rightarrow> nat" where
  "next_rowid d = Suc (max (seq d) (max_rowid (PrintJob d)))"

text \<open>\<open>insertPrintJob\<close> at clock value \<open>now\<close>; the status is the one the caller passes.\<close>

definition insertPrintJob :: "int \<Rightarrow> db_handle \<Rightarrow> job_data \<Rightarrow> string \<Rightarrow> (js_error + run_result) \<times> db_handle" where
  "insertPrintJob now h jd st =
     (case h of
        None \<Rightarrow> (Inl not_initialized, h)
      | Some d \<Rightarrow>
          if userId jd \<notin> set (User d)
          then (Inl (Error ''Query failed: SQLITE_CONSTRAINT: FOREIGN KEY constraint failed''), h)
          else
            (let i = next_rowid d;
                 r = \<lparr>paperType = store_value TEXT (or_default (paperType jd) (JStr ''Plain Paper'')),
                      printQuality = store_value INTEGER (or_default (printQuality jd) (JNum 600)),
                      colorMode = store_value TEXT (or_default (colorMode jd) (JStr ''Grayscale'')),
                      paperSize = store_value TEXT (or_default (paperSize jd) (JStr ''A4'')),
                      userId = userId jd, documentName = documentName jd,
                      documentPath = documentPath jd,
                      row_id = i, status = st, submittedAt = CURRENT_TIMESTAMP now,
                      completedAt = None\<rparr>
             in (Inr \<lparr>lastID = i, changes = 1\<rparr>,
                 Some (d\<lparr>PrintJob := PrintJob d @ [r], seq := i, last_insert_rowid := i\<rparr>))))"

text \<open>
  \<open>getPrintJob\<close>: the id is a Number, \<open>None\<close> when it is \<open>NaN\<close> (which SQLite binds as
  NULL, matching no row). The result is \<open>None\<close> for the \<open>null\<close> of no row.
\<close>

definition getPrintJob :: "db_handle \<Rightarrow> int option \<Rightarrow> js_error + job option" where
  "getPrintJob h i =
     (case h of
        None \<Rightarrow> Inl not_initialized
      | Some d \<Rightarrow>
          (case i of
             None \<Rightarrow> Inr None
           | Some n \<Rightarrow> Inr (find (\<lambda>j. int (row_id j) = n) (PrintJob d))))"




definition count_matching :: "int \<Rightarrow> job list \<Rightarrow> nat" where
  "count_matching n js = length (filter (\<lambda>j. int (row_id j) = n) js)"

text \<open>\<open>UPDATE PrintJob SET status = ? WHERE id = ?\<close>: the column \<open>completedAt\<close> is not written.\<close>

definition updatePrintJobStatus :: "db_handle \<Rightarrow> int \<Rightarrow> string \<Rightarrow> (js_error + run_result) \<times> db_handle" where
  "updatePrintJobStatus h n st =
     (case h of
        None \<Rightarrow> (Inl not_initialized, h)
      | Some d \<Rightarrow>
          (Inr \<lparr>lastID = last_insert_rowid d, changes = count_matching n (PrintJob d)\<rparr>,
           Some (d\<lparr>PrintJob := map (\<lambda>j. if int (row_id j) = n then j\<lparr>status := st\<rparr> else j) (PrintJob d)\<rparr>)))"

text \<open>\<open>UPDATE PrintJob SET status = 'completed', completedAt = CURRENT_TIMESTAMP WHERE id = ?\<close>.\<close>

definition completePrintJob :: "int \<Rightarrow> db_handle \<Rightarrow> int \<Rightarrow> (js_error + run_result) \<times> db_handle" where
  "completePrintJob now h n =
     (case h of
        None \<Rightarrow> (Inl not_initialized, h)
      | Some d \<Rightarrow>
          (Inr \<lparr>lastID = last_insert_rowid d, changes = count_matching n (PrintJob d)\<rparr>,
           Some (d\<lparr>PrintJob := map (\<lambda>j. if int (row_id j) = n
                                          then j\<lparr>status := ''completed'',
                                                 completedAt := Some (CURRENT_TIMESTAMP now)\<rparr>
                                          else j) (PrintJob d)\<rparr>)))"

section \<open>utils/printerIntegration: the device gateway\<close>

record with_message =
  message :: string

text \<open>The result of a submission; \<open>jobId\<close> is the device's token, \<open>null\<close> on failure.\<close>

record submission_result = with_message +
  success :: bool
  jobId :: js_value

record print_validation = validation_errors +
  valid :: bool

text \<open>
  \<open>validatePrintSettings\<close>: an argument that is falsy or not an object is refused. A
  field is checked only when its value is truthy.
\<close>

definition validatePrintSettings :: "settings_input \<Rightarrow> print_validation" where
  "validatePrintSettings si =
     (if falsy_input si \<or> not_typeof_object si
      then \<lparr>errors = [''Settings must be an object''], valid = False\<rparr>
      else
          (let s = properties si;
               validPaperTypes = [JStr ''Plain Paper'', JStr ''Glossy''];
               e1 = (if truthy (paperType s) \<and> \<not> js_includes validPaperTypes (paperType s)
                     then [''Invalid paper type: '' @ js_String (paperType s)] else []);
               validQualities = [JNum 600, JNum 1200];
               e2 = (if truthy (printQuality s) \<and> \<not> js_includes validQualities (js_parseInt (printQuality s))
                     then [''Invalid print quality: '' @ js_String (printQuality s)] else []);
               validColorModes = [JStr ''Color'', JStr ''Grayscale''];
               e3 = (if truthy (colorMode s) \<and> \<not> js_includes validColorModes (colorMode s)
                     then [''Invalid color mode: '' @ js_String (colorMode s)] else []);
               validPaperSizes = [JStr ''A4'', JStr ''Letter'', JStr ''Legal''];
               e4 = (if truthy (paperSize s) \<and> \<not> js_includes validPaperSizes (paperSize s)
                     then [''Invalid paper size: '' @ js_String (paperSize s)] else []);
               es = e1 @ e2 @ e3 @ e4
           in \<lparr>errors = es, valid = (es = [])\<rparr>))"

text \<open>
  \<open>submitJobToPrinter\<close> runs the platform's print command and catches every exception of
  its own, so it always returns a result. What the command does is the device's affair:
  the function is a parameter of the model, any function from the document path and the
  settings to a result.
\<close>

type_synonym printer = "string \<Rightarrow> settings_input \<Rightarrow> submission_result"

text \<open>The property names of the object that the module exports.\<close>

definition printerIntegration_exports :: "string list" where
  "printerIntegration_exports =
     [''formatPrinterOptions'', ''getPrinterStatus'', ''submitJobToPrinter'',
      ''getPrintQueueStatus'', ''cancelPrintJob'', ''validatePrintSettings'',
      ''getPrinterCapabilities'', ''PRINTER_CONFIG'']"

text \<open>
  Calling \<open>module.name(...)\<close>: a name the module does not export reads as \<open>undefined\<close>,
  and calling \<open>undefined\<close> raises a TypeError before anything runs. \<open>body\<close> is what the
  call computes when the name is exported.
\<close>

definition call_export :: "string list \<Rightarrow> string \<Rightarrow> js_error + 'a \<Rightarrow> js_error + 'a" where
  "call_export exports name body =
     (if name \<in> set exports then body
      else Inl (TypeError (''printerIntegration.'' @ name @ '' is not a function'')))"

section \<open>models/printJob: the job lifecycle\<close>

text \<open>
  \<open>createPrintJob\<close>: the required identifiers are checked, the settings are not. The
  result object's two fields \<open>id\<close> and \<open>jobId\<close> are both the new row's id, which is what
  the model returns.
\<close>

definition createPrintJob :: "int \<Rightarrow> db_handle \<Rightarrow> job_data \<Rightarrow> (js_error + nat) \<times> db_handle" where
  "createPrintJob now h jobData =
     (if userId jobData = 0 \<or> documentName jobData = [] \<or> documentPath jobData = []
      then (Inl (Error ''Missing required job data: userId, documentName, documentPath''), h)
      else
        (case insertPrintJob now h
                (jobData\<lparr>paperType := or_default (paperType jobData) (JStr ''Plain Paper''),
                         printQuality := or_default (printQuality jobData) (JNum 600),
                         colorMode := or_default (colorMode jobData) (JStr ''Grayscale''),
                         paperSize := or_default (paperSize jobData) (JStr ''A4'')\<rparr>)
                ''pending'' of
           (Inl e, h') \<Rightarrow> (Inl e, h')
         | (Inr result, h') \<Rightarrow> (Inr (lastID result), h')))"

text \<open>
  \<open>submitJobToQueue\<close>: every exception raised inside is rethrown with the prefix
  \<open>Job submission error:\<close>. On a failed submission nothing is written.
\<close>

definition submission_error :: "js_error \<Rightarrow> js_error" where
  "submission_error err = Error (''Job submission error: '' @ err_message err)"

definition submitJobToQueue ::
  "printer \<Rightarrow> db_handle \<Rightarrow> nat \<Rightarrow> string \<Rightarrow> settings_input \<Rightarrow> (js_error + submission_result) \<times> db_handle" where
  "submitJobToQueue submitJobToPrinter h jid docPath so =
     (case getPrintJob h (Some (int jid)) of
        Inl e \<Rightarrow> (Inl (submission_error e), h)
      | Inr None \<Rightarrow> (Inl (submission_error (Error (''Job '' @ nat_to_dec jid @ '' not found''))), h)
      | Inr (Some j) \<Rightarrow>
          (let validation = validatePrintSettings so in
           if \<not> valid validation
           then (Inl (submission_error
                        (Error (''Invalid print settings: '' @ join '', '' (errors validation)))), h)
           else
             (let result = submitJobToPrinter docPath so in
              if success result
              then (case updatePrintJobStatus h (int jid) ''in-progress'' of
                      (Inl e, h') \<Rightarrow> (Inl (submission_error e), h')
                    | (Inr _, h') \<Rightarrow> (Inr result, h'))
              else (Inr result, h))))"

text \<open>\<open>updateJobStatus\<close> of the model: the new status is checked, the stored one is not read.\<close>

definition PrintJob_updateJobStatus :: "db_handle \<Rightarrow> int \<Rightarrow> string \<Rightarrow> (js_error + run_result) \<times> db_handle" where
  "PrintJob_updateJobStatus h n st =
     (let validStatuses = [''pending'', ''in-progress'', ''completed'', ''failed''] in
      if st \<notin> set validStatuses
      then (Inl (Error (''Invalid status: '' @ st @ ''. Must be one of: '' @ join '', '' validStatuses)), h)
      else updatePrintJobStatus h n st)"


definition completeJob :: "int \<Rightarrow> db_handle \<Rightarrow> int \<Rightarrow> (js_error + run_result) \<times> db_handle" where
  "completeJob now h n = completePrintJob now h n"

section \<open>controllers/jobController\<close>

record uploaded_file =
  originalName :: string
  path :: string

text \<open>The session: a property that is not set is \<open>None\<close>.\<close>

record session =
  session_userId :: "nat option"
  uploadedFile :: "uploaded_file option"
  printSettings :: "settings option"

text \<open>
  What a handler sends: a rendered error page or a JSON error with its HTTP status, the
  confirmation page (job id, document name, settings, submission result), or the JSON
  body of the status check (job id, status, updated).
\<close>

datatype response =
    RenderError nat string
  | RenderJobConfirmation nat string settings submission_result
  | JsonError nat string
  | JsonStatus nat string bool

definition submission_failed :: "js_error \<Rightarrow> response" where
  "submission_failed err = RenderError 500 (''Job submission failed: '' @ err_message err)"

text \<open>
  \<open>postSubmitJob\<close>: the row is created first, then submitted; an exception of either
  step is caught and rendered, and nothing removes the row that was created.
\<close>

definition postSubmitJob :: "printer \<Rightarrow> int \<Rightarrow> db_handle \<Rightarrow> session \<Rightarrow> response \<times> session \<times> db_handle" where
  "postSubmitJob submitJobToPrinter now h se =
     (case uploadedFile se of
        None \<Rightarrow> (RenderError 200 ''No file uploaded. Please upload a document first.'', se, h)
      | Some uf \<Rightarrow>
          (case session_userId se of
             None \<Rightarrow> (RenderError 200 ''User session invalid. Please log in again.'', se, h)
           | Some u \<Rightarrow>
               if u = 0 then (RenderError 200 ''User session invalid. Please log in again.'', se, h)
               else
                 (let sett = (case printSettings se of None \<Rightarrow> getDefaults | Some s \<Rightarrow> s) in
                  case createPrintJob now h
                         \<lparr>paperType = paperType sett, printQuality = printQuality sett,
                          colorMode = colorMode sett, paperSize = paperSize sett,
                          userId = u, documentName = originalName uf, documentPath = path uf\<rparr> of
                    (Inl e, h1) \<Rightarrow> (submission_failed e, se, h1)
                  | (Inr jid, h1) \<Rightarrow>
                      (case submitJobToQueue submitJobToPrinter h1 jid (path uf) (Obj sett) of
                         (Inl e, h2) \<Rightarrow> (submission_failed e, se, h2)
                       | (Inr submissionResult, h2) \<Rightarrow>
                           (RenderJobConfirmation jid (originalName uf) sett submissionResult,
                            se\<lparr>uploadedFile := None, printSettings := None\<rparr>, h2)))))"

subsection \<open>The global function isNaN on a string\<close>

definition trim :: "string \<Rightarrow> string" where
  "trim s = rev (dropWhile isWhiteSpace (rev (dropWhile isWhiteSpace s)))"

definition isDecimalDigits :: "string \<Rightarrow> bool" where
  "isDecimalDigits s = (s \<noteq> [] \<and> list_all isDigit s)"

definition isSignedInteger :: "string \<Rightarrow> bool" where
  "isSignedInteger s =
     (case s of [] \<Rightarrow> False
      | c # r \<Rightarrow> if c = CHR ''+'' \<or> c = CHR ''-'' then isDecimalDigits r else isDecimalDigits s)"

definition isExponentPart :: "string \<Rightarrow> bool" where
  "isExponentPart s =
     (case s of [] \<Rightarrow> False | c # r \<Rightarrow> (c = CHR ''e'' \<or> c = CHR ''E'') \<and> isSignedInteger r)"

definition isStrUnsignedDecimalLiteral :: "string \<Rightarrow> bool" where
  "isStrUnsignedDecimalLiteral s =
     (if s = ''Infinity'' then True
      else
        (let ds = takeWhile isDigit s; r = dropWhile isDigit s in
         case r of
           [] \<Rightarrow> ds \<noteq> []
         | c # r2 \<Rightarrow>
             if c = CHR ''.''
             then (let fs = takeWhile isDigit r2; r3 = dropWhile isDigit r2
                   in \<not> (ds = [] \<and> fs = []) \<and> (if r3 = [] then True else isExponentPart r3))
             else ds \<noteq> [] \<and> isExponentPart r))"

definition isStrDecimalLiteral :: "string \<Rightarrow> bool" where
  "isStrDecimalLiteral s =
     (case s of [] \<Rightarrow> False
      | c # r \<Rightarrow> if c = CHR ''+'' \<or> c = CHR ''-'' then isStrUnsignedDecimalLiteral r
                 else isStrUnsignedDecimalLiteral s)"

definition isNonDecimalIntegerLiteral :: "string \<Rightarrow> bool" where
  "isNonDecimalIntegerLiteral s =
     (case s of
        c0 # c1 # r \<Rightarrow>
          c0 = CHR ''0'' \<and> r \<noteq> [] \<and>
          (if c1 \<in> set ''bB'' then list_all (\<lambda>c. c \<in> set ''01'') r
           else if c1 \<in> set ''oO'' then list_all (\<lambda>c. c \<in> set ''01234567'') r
           else if c1 \<in> set ''xX'' then list_all (\<lambda>c. c \<in> set ''0123456789abcdefABCDEF'') r
           else False)
      | _ \<Rightarrow> False)"

text \<open>
  \<open>isNaN(s)\<close> converts the string to a Number: the trimmed string is empty (the number
  0) or a numeric literal, or else the number is \<open>NaN\<close>.
\<close>

definition string_isNaN :: "string \<Rightarrow> bool" where
  "string_isNaN s =
     (let t = trim s in
      \<not> (if t = [] then True else if isStrDecimalLiteral t then True else isNonDecimalIntegerLiteral t))"

subsection \<open>The status check of a job\<close>

text \<open>What \<open>isJobInQueue\<close> is read to return: an object with \<open>inQueue\<close> and \<open>status\<close>.\<close>

record status_check =
  inQueue :: bool
  queue_status :: string

definition update_failed :: response where
  "update_failed = JsonError 500 ''Failed to update job status''"

text \<open>
  \<open>updateJobStatus\<close> of the controller, over the names \<open>exports\<close> that the required module
  exports and the function \<open>isJobInQueue\<close> that the name would denote if it were among
  them. \<open>p\<close> is the route parameter \<open>jobId\<close>.
\<close>

definition jobController_updateJobStatus ::
  "string list \<Rightarrow> (nat \<Rightarrow> js_error + status_check) \<Rightarrow> db_handle \<Rightarrow> string \<Rightarrow> session \<Rightarrow> response \<times> db_handle" where
  "jobController_updateJobStatus exports isJobInQueue h p se =
     (if p = [] \<or> string_isNaN p then (JsonError 400 ''Invalid job ID'', h)
      else
        (case getPrintJob h (parseInt10 p) of
           Inl e \<Rightarrow> (update_failed, h)
         | Inr None \<Rightarrow> (JsonError 404 ''Job not found'', h)
         | Inr (Some j) \<Rightarrow>
             if Some (userId j) \<noteq> session_userId se then (JsonError 403 ''Access denied'', h)
             else
               (case call_export exports ''isJobInQueue'' (isJobInQueue (row_id j)) of
                  Inl e \<Rightarrow> (update_failed, h)
                | Inr statusCheck \<Rightarrow>
                    if \<not> inQueue statusCheck \<and> status j = ''in-progress''
                    then (case PrintJob_updateJobStatus h (int (row_id j)) ''completed'' of
                            (Inl e, h') \<Rightarrow> (update_failed, h')
                          | (Inr _, h') \<Rightarrow>
                              (JsonStatus (row_id j) (queue_status statusCheck) (\<not> inQueue statusCheck), h'))
                    else (JsonStatus (row_id j) (queue_status statusCheck) (\<not> inQueue statusCheck), h))))"

text \<open>The handler as the repository runs it: the module is \<open>utils/printerIntegration\<close>.\<close>

definition reconcile :: "(nat \<Rightarrow> js_error + status_check) \<Rightarrow> db_handle \<Rightarrow> string \<Rightarrow> session \<Rightarrow> response \<times> db_handle" where
  "reconcile = jobController_updateJobStatus printerIntegration_exports"

section \<open>utils/cleanupService: the retention sweep of jobs\<close>

record cleanup_result = with_message +
  deleted :: nat

definition cleanup_failed :: "js_error \<Rightarrow> cleanup_result" where
  "cleanup_failed err = \<lparr>message = ''Failed to cleanup print jobs: '' @ err_message err, deleted = 0\<rparr>"

text \<open>
  \<open>cleanupOldPrintJobs\<close> at clock value \<open>now\<close>: the bound parameter is the ISO string of
  the instant one day earlier, and \<open>DELETE FROM PrintJob WHERE submittedAt < ?\<close> compares
  the stored text with it. Every exception is caught and reported with zero deletions.
\<close>

definition cleanupOldPrintJobs :: "int \<Rightarrow> db_handle \<Rightarrow> cleanup_result \<times> db_handle" where
  "cleanupOldPrintJobs now h =
     (case toISOString (now - ONE_DAY_MS) of
        Inl e \<Rightarrow> (cleanup_failed e, h)
      | Inr oneDayAgo \<Rightarrow>
          (case h of
             None \<Rightarrow> (cleanup_failed (TypeError (''Cannot read properties of null (reading ''
                                                 @ [CHR 0x27] @ ''run'' @ [CHR 0x27] @ '')'')), h)
           | Some d \<Rightarrow>
               (let kept = filter (\<lambda>j. \<not> text_less (submittedAt j) oneDayAgo) (PrintJob d);
                    result = length (PrintJob d) - length kept
                in (\<lparr>message = ''Cleaned up '' @ nat_to_dec result @ '' old print job(s) from database'',
                     deleted = result\<rparr>,
                    Some (d\<lparr>PrintJob := kept\<rparr>)))))"

section \<open>Example data\<close>

text \<open>
  A stored row with the default settings, a printer that times out, a printer that
  accepts the document, and a queue check that reports the job gone: the concrete
  instances below are built from them.
\<close>

definition job_row :: "nat \<Rightarrow> nat \<Rightarrow> string \<Rightarrow> string \<Rightarrow> string option \<Rightarrow> job" where
  "job_row i u st sub fin =
     \<lparr>paperType = SqlText ''Plain Paper'', printQuality = SqlInteger 600,
      colorMode = SqlText ''Grayscale'', paperSize = SqlText ''A4'',
      userId = u, documentName = ''a.pdf'', documentPath = ''/uploads/a.pdf'',
      row_id = i, status = st, submittedAt = sub, completedAt = fin\<rparr>"

definition timeout_printer :: printer where
  "timeout_printer docPath si =
     \<lparr>message = ''Failed to submit job to printer: Printer communication timeout'',
      success = False, jobId = JNull\<rparr>"

definition accepting_printer :: printer where
  "accepting_printer docPath si =
     \<lparr>message = ''Job submitted successfully to printer. Job ID: 7'',
      success = True, jobId = JStr ''7''\<rparr>"

definition gone_from_queue :: "nat \<Rightarrow> js_error + status_check" where
  "gone_from_queue i = Inr \<lparr>inQueue = False, queue_status = ''completed''\<rparr>"

section \<open>Properties of the settings resolver\<close>

lemma parseInt_600: "js_parseInt (JNum 600) = JNum 600"
  by code_simp

lemma parseInt_1200: "js_parseInt (JNum 1200) = JNum 1200"
  by code_simp

lemma valid_paperType:
  "isValid (validateSettings (Obj s)) \<Longrightarrow> paperType s \<in> {JUndefined, JStr ''Plain Paper'', JStr ''Glossy''}"
  by (auto simp: validateSettings_def Let_def AVAILABLE_OPTIONS_def js_includes_def split: if_splits)

lemma valid_printQuality:
  "isValid (validateSettings (Obj s)) \<Longrightarrow>
     printQuality s = JUndefined \<or> js_parseInt (printQuality s) \<in> {JNum 600, JNum 1200}"
  by (auto simp: validateSettings_def Let_def AVAILABLE_OPTIONS_def js_includes_def split: if_splits)

lemma valid_colorMode:
  "isValid (validateSettings (Obj s)) \<Longrightarrow> colorMode s \<in> {JUndefined, JStr ''Color'', JStr ''Grayscale''}"
  by (auto simp: validateSettings_def Let_def AVAILABLE_OPTIONS_def js_includes_def split: if_splits)

lemma valid_paperSize:
  "isValid (validateSettings (Obj s)) \<Longrightarrow>
     paperSize s \<in> {JUndefined, JStr ''A4'', JStr ''Letter'', JStr ''Legal''}"
  by (auto simp: validateSettings_def Let_def AVAILABLE_OPTIONS_def js_includes_def split: if_splits)

text \<open>
  The quality of a valid record, in whatever encoding it arrives (the number, a numeral
  string, a numeral with leading white space or trailing text), is normalised to the
  number 600 or 1200, which a second pass reads back unchanged.
\<close>

lemma normalize_quality_idem:
  assumes "q = JUndefined \<or> js_parseInt q \<in> {JNum 600, JNum 1200}"
  shows "js_parseInt (js_or (js_parseInt (js_or q (JNum 600))) (JNum 600)) = js_parseInt (js_or q (JNum 600))"
proof (cases "truthy q")
  case True
  then have "q \<noteq> JUndefined" by auto
  with assms have "js_parseInt q = JNum 600 \<or> js_parseInt q = JNum 1200" by simp
  with True show ?thesis by (auto simp: js_or_def parseInt_600 parseInt_1200)
next
  case False
  then show ?thesis by (simp add: js_or_def parseInt_600)
qed

text \<open>
  C7. For every settings record that \<open>validateSettings\<close> accepts (each field that is
  present drawn from its enumeration, the quality in any encoding that \<open>parseInt\<close> reads as
  600 or 1200; this includes every record with all four fields present and valid),
  \<open>normalizeSettings\<close> is idempotent: normalising the normalised record gives the
  normalised record.
\<close>

theorem normalize_idempotent:
  assumes "isValid (validateSettings (Obj s))"
  shows "normalizeSettings (normalizeSettings s) = normalizeSettings s"
proof -
  have q: "js_parseInt (js_or (js_parseInt (js_or (printQuality s) (JNum 600))) (JNum 600))
             = js_parseInt (js_or (printQuality s) (JNum 600))"
    using valid_printQuality [OF assms] by (rule normalize_quality_idem)
  have p: "js_or (JStr (js_String (js_or (paperType s) (JStr ''Plain Paper'')))) (JStr ''Plain Paper'')
             = JStr (js_String (js_or (paperType s) (JStr ''Plain Paper'')))"
    using valid_paperType [OF assms] by (auto simp: js_or_def)
  have c: "js_or (JStr (js_String (js_or (colorMode s) (JStr ''Grayscale'')))) (JStr ''Grayscale'')
             = JStr (js_String (js_or (colorMode s) (JStr ''Grayscale'')))"
    using valid_colorMode [OF assms] by (auto simp: js_or_def)
  have z: "js_or (JStr (js_String (js_or (paperSize s) (JStr ''A4'')))) (JStr ''A4'')
             = JStr (js_String (js_or (paperSize s) (JStr ''A4'')))"
    using valid_paperSize [OF assms] by (auto simp: js_or_def)
  show ?thesis
    by (simp add: normalizeSettings_def DEFAULT_SETTINGS_def q p c z)
qed

text \<open>The record Glossy, "1200" (a numeral string), Color, Letter is valid and normalises to a fixed point.\<close>

theorem normalize_idempotent_witness:
  "isValid (validateSettings (Obj \<lparr>paperType = JStr ''Glossy'', printQuality = JStr ''1200'',
                                     colorMode = JStr ''Color'', paperSize = JStr ''Letter''\<rparr>))
   \<and> normalizeSettings \<lparr>paperType = JStr ''Glossy'', printQuality = JStr ''1200'',
                        colorMode = JStr ''Color'', paperSize = JStr ''Letter''\<rparr>
     = \<lparr>paperType = JStr ''Glossy'', printQuality = JNum 1200,
        colorMode = JStr ''Color'', paperSize = JStr ''Letter''\<rparr>
   \<and> normalizeSettings (normalizeSettings \<lparr>paperType = JStr ''Glossy'', printQuality = JStr ''1200'',
                                           colorMode = JStr ''Color'', paperSize = JStr ''Letter''\<rparr>)
     = \<lparr>paperType = JStr ''Glossy'', printQuality = JNum 1200,
        colorMode = JStr ''Color'', paperSize = JStr ''Letter''\<rparr>"
proof -
  let ?s = "\<lparr>paperType = JStr ''Glossy'', printQuality = JStr ''1200'',
             colorMode = JStr ''Color'', paperSize = JStr ''Letter''\<rparr>"
  have h: "isValid (validateSettings (Obj ?s))"
    by code_simp
  have n: "normalizeSettings ?s = \<lparr>paperType = JStr ''Glossy'', printQuality = JNum 1200,
                                   colorMode = JStr ''Color'', paperSize = JStr ''Letter''\<rparr>"
    by code_simp
  show ?thesis
    using h n normalize_idempotent [OF h] by simp
qed

lemma js_parseInt_defined: "js_parseInt v \<noteq> JUndefined"
  by (simp add: js_parseInt_def split: option.splits)

text \<open>
  C8, as stated, fails: a field that is present with a falsy value does not pass through.
  The record whose paper type is the empty string has its paper type replaced by the
  default.
\<close>

theorem applyDefaults_counterexample:
  "paperType \<lparr>paperType = JStr '''', printQuality = JUndefined,
             colorMode = JUndefined, paperSize = JUndefined\<rparr> \<noteq> JUndefined
   \<and> paperType (applyDefaults \<lparr>paperType = JStr '''', printQuality = JUndefined,
                               colorMode = JUndefined, paperSize = JUndefined\<rparr>)
       = JStr ''Plain Paper''"
  by (simp add: applyDefaults_def DEFAULT_SETTINGS_def js_or_def)

text \<open>
  C8, amended. For every partial settings record, \<open>applyDefaults\<close> returns a record in
  which no field is undefined. A paper type, colour mode or paper size that is present
  with a truthy value appears in the output with its input value; one that is absent or
  falsy (the empty string, null, 0, false, NaN) is replaced by its default. The quality,
  when it is present (not undefined), is \<open>parseInt\<close> of the input value in radix 10, which
  is \<open>NaN\<close> when the value has no leading decimal numeral; when absent it is 600.
\<close>

theorem applyDefaults_total_and_truthy_preserved:
  "paperType (applyDefaults s) \<noteq> JUndefined
   \<and> printQuality (applyDefaults s) \<noteq> JUndefined
   \<and> colorMode (applyDefaults s) \<noteq> JUndefined
   \<and> paperSize (applyDefaults s) \<noteq> JUndefined
   \<and> paperType (applyDefaults s) = (if truthy (paperType s) then paperType s else JStr ''Plain Paper'')
   \<and> printQuality (applyDefaults s)
        = (if printQuality s \<noteq> JUndefined then js_parseInt (printQuality s) else JNum 600)
   \<and> colorMode (applyDefaults s) = (if truthy (colorMode s) then colorMode s else JStr ''Grayscale'')
   \<and> paperSize (applyDefaults s) = (if truthy (paperSize s) then paperSize s else JStr ''A4'')"
  by (auto simp: applyDefaults_def DEFAULT_SETTINGS_def js_or_def js_parseInt_defined)

theorem applyDefaults_total_and_truthy_preserved_witness:
  "applyDefaults \<lparr>paperType = JStr ''Glossy'', printQuality = JStr ''1200'',
                  colorMode = JStr '''', paperSize = JUndefined\<rparr>
     = \<lparr>paperType = JStr ''Glossy'', printQuality = JNum 1200,
        colorMode = JStr ''Grayscale'', paperSize = JStr ''A4''\<rparr>"
proof -
  let ?s = "\<lparr>paperType = JStr ''Glossy'', printQuality = JStr ''1200'',
             colorMode = JStr '''', paperSize = JUndefined\<rparr>"
  have q: "js_parseInt (JStr ''1200'') = JNum 1200"
    by code_simp
  have "paperType (applyDefaults ?s) = JStr ''Glossy''
        \<and> printQuality (applyDefaults ?s) = JNum 1200
        \<and> colorMode (applyDefaults ?s) = JStr ''Grayscale''
        \<and> paperSize (applyDefaults ?s) = JStr ''A4''"
    using applyDefaults_total_and_truthy_preserved [of ?s] q by simp
  then show ?thesis
    by (cases "applyDefaults ?s") simp
qed

text \<open>
  C9 fails on the code: \<open>validateSettings\<close> refuses only a falsy argument. A truthy
  primitive (the number 5, the string "abc", the boolean true) has none of the four
  properties, so no check runs and the result is valid with no error. The gateway's
  \<open>validatePrintSettings\<close> does test \<open>typeof settings !== 'object'\<close> and refuses the
  same argument with one error.
\<close>

theorem validateSettings_accepts_truthy_primitive:
  "validateSettings (Prim (JNum 5)) = \<lparr>errors = [], isValid = True\<rparr>
   \<and> validateSettings (Prim (JStr ''abc'')) = \<lparr>errors = [], isValid = True\<rparr>
   \<and> validateSettings (Prim (JBool True)) = \<lparr>errors = [], isValid = True\<rparr>
   \<and> validateSettings (Prim JNull) = \<lparr>errors = [''Settings object is required''], isValid = False\<rparr>
   \<and> validatePrintSettings (Prim (JNum 5)) = \<lparr>errors = [''Settings must be an object''], valid = False\<rparr>"
  by code_simp

section \<open>Properties of the store\<close>

lemma find_append_last: "P r \<Longrightarrow> \<exists>j. find P (xs @ [r]) = Some j"
  by (induction xs) auto

lemma find_map_same_key:
  assumes "find P xs = Some j" and "\<And>x. P (f x) = P x"
  shows "find P (map f xs) = Some (f j)"
  using assms by (induction xs) (auto split: if_splits)

lemma getPrintJob_after_update:
  assumes "getPrintJob h (Some n) = Inr (Some j)"
  shows "\<exists>r h'. updatePrintJobStatus h n st = (Inr r, h')
           \<and> getPrintJob h' (Some n) = Inr (Some (j\<lparr>status := st\<rparr>))"
proof (cases h)
  case None
  with assms show ?thesis by (simp add: getPrintJob_def)
next
  case (Some d)
  with assms have f: "find (\<lambda>j. int (row_id j) = n) (PrintJob d) = Some j"
    by (simp add: getPrintJob_def)
  have "find (\<lambda>j. int (row_id j) = n)
          (map (\<lambda>j. if int (row_id j) = n then j\<lparr>status := st\<rparr> else j) (PrintJob d))
        = Some (if int (row_id j) = n then j\<lparr>status := st\<rparr> else j)"
    by (rule find_map_same_key [OF f]) simp
  moreover from f have "int (row_id j) = n"
    by (auto simp: find_Some_iff)
  ultimately show ?thesis
    using Some by (simp add: updatePrintJobStatus_def getPrintJob_def)
qed

subsection \<open>The order of the stored timestamps\<close>











section \<open>Properties of the job lifecycle\<close>

lemma or_default_idem: "or_default (or_default v d) d = or_default v d"
  by (simp add: or_default_def)

text \<open>A new row's id is above every id in the table, so the job just created is found by it.\<close>

lemma row_id_le_max_rowid: "j \<in> set js \<Longrightarrow> row_id j \<le> max_rowid js"
  by (induction js) (auto simp: max_rowid_def)

lemma row_id_less_next_rowid: "j \<in> set (PrintJob d) \<Longrightarrow> row_id j < next_rowid d"
  using row_id_le_max_rowid [of j "PrintJob d"] by (simp add: next_rowid_def)

lemma find_append_fresh:
  assumes "\<And>x. x \<in> set xs \<Longrightarrow> \<not> P x" and "P r"
  shows "find P (xs @ [r]) = Some r"
  using assms by (induction xs) auto

text \<open>What \<open>createPrintJob\<close> does when the identifiers are present and the user exists.\<close>

lemma createPrintJob_inserts:
  assumes "userId jobData \<noteq> 0" and "documentName jobData \<noteq> []"
    and "documentPath jobData \<noteq> []" and "userId jobData \<in> set (User d)"
  shows "createPrintJob now (Some d) jobData =
      (Inr (next_rowid d),
       Some (d\<lparr>PrintJob := PrintJob d @
                  [\<lparr>paperType = store_value TEXT (or_default (paperType jobData) (JStr ''Plain Paper'')),
                    printQuality = store_value INTEGER (or_default (printQuality jobData) (JNum 600)),
                    colorMode = store_value TEXT (or_default (colorMode jobData) (JStr ''Grayscale'')),
                    paperSize = store_value TEXT (or_default (paperSize jobData) (JStr ''A4'')),
                    userId = userId jobData, documentName = documentName jobData,
                    documentPath = documentPath jobData,
                    row_id = next_rowid d, status = ''pending'',
                    submittedAt = CURRENT_TIMESTAMP now, completedAt = None\<rparr>],
               seq := next_rowid d, last_insert_rowid := next_rowid d\<rparr>))"
  using assms by (simp add: createPrintJob_def insertPrintJob_def Let_def or_default_idem)

lemma createPrintJob_stores_pending:
  assumes "createPrintJob now h jobData = (Inr jid, h1)"
  shows "\<exists>j. getPrintJob h1 (Some (int jid)) = Inr (Some j) \<and> status j = ''pending''
             \<and> userId j = userId jobData \<and> completedAt j = None"
proof (cases h)
  case None
  with assms show ?thesis
    by (simp add: createPrintJob_def insertPrintJob_def split: if_splits)
next
  case (Some d)
  let ?r = "\<lparr>paperType = store_value TEXT (or_default (paperType jobData) (JStr ''Plain Paper'')),
             printQuality = store_value INTEGER (or_default (printQuality jobData) (JNum 600)),
             colorMode = store_value TEXT (or_default (colorMode jobData) (JStr ''Grayscale'')),
             paperSize = store_value TEXT (or_default (paperSize jobData) (JStr ''A4'')),
             userId = userId jobData, documentName = documentName jobData,
             documentPath = documentPath jobData,
             row_id = next_rowid d, status = ''pending'',
             submittedAt = CURRENT_TIMESTAMP now, completedAt = None\<rparr>"
  from assms Some have j: "jid = next_rowid d"
    and h1: "h1 = Some (d\<lparr>PrintJob := PrintJob d @ [?r], seq := next_rowid d,
                            last_insert_rowid := next_rowid d\<rparr>)"
    by (auto simp: createPrintJob_def insertPrintJob_def Let_def or_default_idem split: if_splits)
  have "find (\<lambda>j. int (row_id j) = int (next_rowid d)) (PrintJob d @ [?r]) = Some ?r"
  proof (rule find_append_fresh)
    fix x assume "x \<in> set (PrintJob d)"
    then show "\<not> int (row_id x) = int (next_rowid d)"
      using row_id_less_next_rowid [of x d] by simp
  qed simp
  with j h1 have "getPrintJob h1 (Some (int jid)) = Inr (Some ?r)"
    by (simp add: getPrintJob_def)
  then show ?thesis by simp
qed

text \<open>
  The settings that the job handler reads from the session were written by the
  configuration handler, after \<open>validateSettings\<close> accepted them and
  \<open>normalizeSettings\<close> normalised them; without them the handler takes the defaults.
  Both pass the gateway's validation, so inside the application the handler never
  submits settings that the gateway refuses. Settings that it refuses reach
  \<open>createPrintJob\<close> and \<open>submitJobToQueue\<close> only through a direct call of these two
  exported functions.
\<close>

lemma gateway_accepts_enumerated:
  assumes "paperType t \<in> {JStr ''Plain Paper'', JStr ''Glossy''}"
    and "printQuality t \<in> {JNum 600, JNum 1200}"
    and "colorMode t \<in> {JStr ''Color'', JStr ''Grayscale''}"
    and "paperSize t \<in> {JStr ''A4'', JStr ''Letter'', JStr ''Legal''}"
  shows "valid (validatePrintSettings (Obj t))"
proof -
  have 1: "js_includes [JStr ''Plain Paper'', JStr ''Glossy''] (paperType t)"
    using assms(1) by (auto simp: js_includes_def)
  have 2: "js_includes [JNum 600, JNum 1200] (js_parseInt (printQuality t))"
    using assms(2) by (auto simp: js_includes_def parseInt_600 parseInt_1200)
  have 3: "js_includes [JStr ''Color'', JStr ''Grayscale''] (colorMode t)"
    using assms(3) by (auto simp: js_includes_def)
  have 4: "js_includes [JStr ''A4'', JStr ''Letter'', JStr ''Legal''] (paperSize t)"
    using assms(4) by (auto simp: js_includes_def)
  show ?thesis
    by (simp add: validatePrintSettings_def Let_def 1 2 3 4)
qed

lemma normalized_settings_pass_gateway:
  assumes "isValid (validateSettings (Obj s))"
  shows "valid (validatePrintSettings (Obj (normalizeSettings s)))"
proof (rule gateway_accepts_enumerated)
  show "paperType (normalizeSettings s) \<in> {JStr ''Plain Paper'', JStr ''Glossy''}"
    using valid_paperType [OF assms]
    by (auto simp: normalizeSettings_def DEFAULT_SETTINGS_def js_or_def)
  show "colorMode (normalizeSettings s) \<in> {JStr ''Color'', JStr ''Grayscale''}"
    using valid_colorMode [OF assms]
    by (auto simp: normalizeSettings_def DEFAULT_SETTINGS_def js_or_def)
  show "paperSize (normalizeSettings s) \<in> {JStr ''A4'', JStr ''Letter'', JStr ''Legal''}"
    using valid_paperSize [OF assms]
    by (auto simp: normalizeSettings_def DEFAULT_SETTINGS_def js_or_def)
  show "printQuality (normalizeSettings s) \<in> {JNum 600, JNum 1200}"
  proof (cases "truthy (printQuality s)")
    case True
    then have "printQuality s \<noteq> JUndefined" by auto
    with valid_printQuality [OF assms] True show ?thesis
      by (simp add: normalizeSettings_def DEFAULT_SETTINGS_def js_or_def)
  next
    case False
    then show ?thesis
      by (simp add: normalizeSettings_def DEFAULT_SETTINGS_def js_or_def parseInt_600)
  qed
qed

lemma default_settings_pass_gateway: "valid (validatePrintSettings (Obj getDefaults))"
  by code_simp

text \<open>
  C1, as stated, fails: \<open>createPrintJob\<close> is called for user 1 and a.pdf with the settings
  \<open>{paperType: "Foo"}\<close> on an empty job table, and \<open>submitJobToQueue\<close> is called for the
  new job with the same settings, the two calls of create-and-submit. The submission
  raises; but the row was inserted by the first call, before the settings were checked,
  and it stays in the table with status pending.
\<close>

theorem create_then_submit_invalid_settings_counterexample:
  "createPrintJob 1704153570000
     (Some \<lparr>User = [1], PrintJob = [], seq = 0, last_insert_rowid = 0\<rparr>)
     \<lparr>paperType = JStr ''Foo'', printQuality = JUndefined,
      colorMode = JUndefined, paperSize = JUndefined,
      userId = 1, documentName = ''a.pdf'', documentPath = ''/uploads/a.pdf''\<rparr>
   = (Inr 1,
      Some \<lparr>User = [1],
            PrintJob = [\<lparr>paperType = SqlText ''Foo'', printQuality = SqlInteger 600,
                         colorMode = SqlText ''Grayscale'', paperSize = SqlText ''A4'',
                         userId = 1, documentName = ''a.pdf'', documentPath = ''/uploads/a.pdf'',
                         row_id = 1, status = ''pending'', submittedAt = ''2024-01-01 23:59:30'',
                         completedAt = None\<rparr>],
            seq = 1, last_insert_rowid = 1\<rparr>)
   \<and> submitJobToQueue timeout_printer
       (Some \<lparr>User = [1],
              PrintJob = [\<lparr>paperType = SqlText ''Foo'', printQuality = SqlInteger 600,
                           colorMode = SqlText ''Grayscale'', paperSize = SqlText ''A4'',
                           userId = 1, documentName = ''a.pdf'', documentPath = ''/uploads/a.pdf'',
                           row_id = 1, status = ''pending'', submittedAt = ''2024-01-01 23:59:30'',
                           completedAt = None\<rparr>],
              seq = 1, last_insert_rowid = 1\<rparr>)
       1 ''/uploads/a.pdf''
       (Obj \<lparr>paperType = JStr ''Foo'', printQuality = JUndefined,
             colorMode = JUndefined, paperSize = JUndefined\<rparr>)
   = (Inl (Error ''Job submission error: Invalid print settings: Invalid paper type: Foo''),
      Some \<lparr>User = [1],
            PrintJob = [\<lparr>paperType = SqlText ''Foo'', printQuality = SqlInteger 600,
                         colorMode = SqlText ''Grayscale'', paperSize = SqlText ''A4'',
                         userId = 1, documentName = ''a.pdf'', documentPath = ''/uploads/a.pdf'',
                         row_id = 1, status = ''pending'', submittedAt = ''2024-01-01 23:59:30'',
                         completedAt = None\<rparr>],
            seq = 1, last_insert_rowid = 1\<rparr>)"
  by code_simp

text \<open>
  C1, amended. For every direct call of create-and-submit (\<open>createPrintJob\<close>, then
  \<open>submitJobToQueue\<close> for the job it returns) with a user known to the store, a document
  name and a document path, and settings that the gateway's \<open>validatePrintSettings\<close>
  refuses (such as paperType "Foo"): the submission raises the error \<open>Job submission
  error: Invalid print settings: ...\<close> listing the gateway's messages, and the job row
  has been persisted. The first call returns the new id and leaves the job table as the
  table before it followed by one new row, of status pending, for that user and
  document, with no completion timestamp; the second call leaves that store unchanged.
\<close>

theorem create_then_submit_invalid_settings_row_persisted:
  assumes "\<not> valid (validatePrintSettings (Obj s))"
    and "userId jobData \<noteq> 0" and "documentName jobData \<noteq> []"
    and "documentPath jobData \<noteq> []" and "userId jobData \<in> set (User d)"
  shows "\<exists>r. createPrintJob now (Some d) jobData
               = (Inr (next_rowid d),
                  Some (d\<lparr>PrintJob := PrintJob d @ [r], seq := next_rowid d,
                          last_insert_rowid := next_rowid d\<rparr>))
            \<and> row_id r = next_rowid d \<and> status r = ''pending''
            \<and> userId r = userId jobData \<and> documentName r = documentName jobData
            \<and> documentPath r = documentPath jobData
            \<and> submittedAt r = CURRENT_TIMESTAMP now \<and> completedAt r = None
            \<and> submitJobToQueue submitJobToPrinter
                 (Some (d\<lparr>PrintJob := PrintJob d @ [r], seq := next_rowid d,
                         last_insert_rowid := next_rowid d\<rparr>))
                 (next_rowid d) docPath (Obj s)
               = (Inl (Error (''Job submission error: Invalid print settings: ''
                               @ join '', '' (errors (validatePrintSettings (Obj s))))),
                  Some (d\<lparr>PrintJob := PrintJob d @ [r], seq := next_rowid d,
                          last_insert_rowid := next_rowid d\<rparr>))"
proof -
  let ?r = "\<lparr>paperType = store_value TEXT (or_default (paperType jobData) (JStr ''Plain Paper'')),
             printQuality = store_value INTEGER (or_default (printQuality jobData) (JNum 600)),
             colorMode = store_value TEXT (or_default (colorMode jobData) (JStr ''Grayscale'')),
             paperSize = store_value TEXT (or_default (paperSize jobData) (JStr ''A4'')),
             userId = userId jobData, documentName = documentName jobData,
             documentPath = documentPath jobData,
             row_id = next_rowid d, status = ''pending'',
             submittedAt = CURRENT_TIMESTAMP now, completedAt = None\<rparr>"
  let ?d1 = "d\<lparr>PrintJob := PrintJob d @ [?r], seq := next_rowid d, last_insert_rowid := next_rowid d\<rparr>"
  have c: "createPrintJob now (Some d) jobData = (Inr (next_rowid d), Some ?d1)"
    using assms(2-5) by (rule createPrintJob_inserts)
  obtain j where "find (\<lambda>j. int (row_id j) = int (next_rowid d)) (PrintJob d @ [?r]) = Some j"
    using find_append_last [of "\<lambda>j. int (row_id j) = int (next_rowid d)" ?r "PrintJob d"] by auto
  then have g: "getPrintJob (Some ?d1) (Some (int (next_rowid d))) = Inr (Some j)"
    by (simp add: getPrintJob_def)
  have q: "submitJobToQueue submitJobToPrinter (Some ?d1) (next_rowid d) docPath (Obj s)
            = (Inl (Error (''Job submission error: Invalid print settings: ''
                          @ join '', '' (errors (validatePrintSettings (Obj s))))), Some ?d1)"
    using assms(1) g by (simp add: submitJobToQueue_def submission_error_def Let_def)
  show ?thesis
    by (rule exI [of _ ?r]) (simp add: c q)
qed

text \<open>
  User 2 is created a job for b.png with Glossy paper and the quality given as the text
  "300", outside the enumeration, while the table holds one older job and the counter
  stands at 4: row 5 is stored as pending, its quality column holding the integer 300,
  and the submission raises.
\<close>

theorem create_then_submit_invalid_settings_row_persisted_witness:
  "\<not> valid (validatePrintSettings (Obj \<lparr>paperType = JStr ''Glossy'', printQuality = JStr ''300'',
                                        colorMode = JUndefined, paperSize = JUndefined\<rparr>))
   \<and> createPrintJob 1704153570000
       (Some \<lparr>User = [1, 2],
              PrintJob = [job_row 4 1 ''completed'' ''2024-01-01 10:00:00'' None],
              seq = 4, last_insert_rowid = 0\<rparr>)
       \<lparr>paperType = JStr ''Glossy'', printQuality = JStr ''300'',
        colorMode = JUndefined, paperSize = JUndefined,
        userId = 2, documentName = ''b.png'', documentPath = ''/uploads/b.png''\<rparr>
     = (Inr 5,
        Some \<lparr>User = [1, 2],
              PrintJob = [job_row 4 1 ''completed'' ''2024-01-01 10:00:00'' None,
                          \<lparr>paperType = SqlText ''Glossy'', printQuality = SqlInteger 300,
                           colorMode = SqlText ''Grayscale'', paperSize = SqlText ''A4'',
                           userId = 2, documentName = ''b.png'', documentPath = ''/uploads/b.png'',
                           row_id = 5, status = ''pending'', submittedAt = ''2024-01-01 23:59:30'',
                           completedAt = None\<rparr>],
              seq = 5, last_insert_rowid = 5\<rparr>)
   \<and> submitJobToQueue accepting_printer
       (Some \<lparr>User = [1, 2],
              PrintJob = [job_row 4 1 ''completed'' ''2024-01-01 10:00:00'' None,
                          \<lparr>paperType = SqlText ''Glossy'', printQuality = SqlInteger 300,
                           colorMode = SqlText ''Grayscale'', paperSize = SqlText ''A4'',
                           userId = 2, documentName = ''b.png'', documentPath = ''/uploads/b.png'',
                           row_id = 5, status = ''pending'', submittedAt = ''2024-01-01 23:59:30'',
                           completedAt = None\<rparr>],
              seq = 5, last_insert_rowid = 5\<rparr>)
       5 ''/uploads/b.png''
       (Obj \<lparr>paperType = JStr ''Glossy'', printQuality = JStr ''300'',
             colorMode = JUndefined, paperSize = JUndefined\<rparr>)
     = (Inl (Error ''Job submission error: Invalid print settings: Invalid print quality: 300''),
        Some \<lparr>User = [1, 2],
              PrintJob = [job_row 4 1 ''completed'' ''2024-01-01 10:00:00'' None,
                          \<lparr>paperType = SqlText ''Glossy'', printQuality = SqlInteger 300,
                           colorMode = SqlText ''Grayscale'', paperSize = SqlText ''A4'',
                           userId = 2, documentName = ''b.png'', documentPath = ''/uploads/b.png'',
                           row_id = 5, status = ''pending'', submittedAt = ''2024-01-01 23:59:30'',
                           completedAt = None\<rparr>],
              seq = 5, last_insert_rowid = 5\<rparr>)"
proof -
  let ?s = "\<lparr>paperType = JStr ''Glossy'', printQuality = JStr ''300'',
             colorMode = JUndefined, paperSize = JUndefined\<rparr>"
  let ?jd = "\<lparr>paperType = JStr ''Glossy'', printQuality = JStr ''300'',
              colorMode = JUndefined, paperSize = JUndefined,
              userId = 2, documentName = ''b.png'', documentPath = ''/uploads/b.png''\<rparr>"
  let ?d = "\<lparr>User = [1, 2],
             PrintJob = [job_row 4 1 ''completed'' ''2024-01-01 10:00:00'' None],
             seq = 4, last_insert_rowid = 0\<rparr>"
  let ?new = "\<lparr>paperType = SqlText ''Glossy'', printQuality = SqlInteger 300,
               colorMode = SqlText ''Grayscale'', paperSize = SqlText ''A4'',
               userId = 2, documentName = ''b.png'', documentPath = ''/uploads/b.png'',
               row_id = 5, status = ''pending'', submittedAt = ''2024-01-01 23:59:30'',
               completedAt = None\<rparr>"
  let ?after = "\<lparr>User = [1, 2],
                 PrintJob = [job_row 4 1 ''completed'' ''2024-01-01 10:00:00'' None, ?new],
                 seq = 5, last_insert_rowid = 5\<rparr>"
  have v: "\<not> valid (validatePrintSettings (Obj ?s))"
    by code_simp
  have e: "join '', '' (errors (validatePrintSettings (Obj ?s))) = ''Invalid print quality: 300''"
    by code_simp
  have n: "next_rowid ?d = 5"
    by (simp add: next_rowid_def max_rowid_def job_row_def)
  have c: "createPrintJob 1704153570000 (Some ?d) ?jd = (Inr 5, Some ?after)"
    by code_simp
  obtain r where c': "createPrintJob 1704153570000 (Some ?d) ?jd
                        = (Inr (next_rowid ?d),
                           Some (?d\<lparr>PrintJob := PrintJob ?d @ [r], seq := next_rowid ?d,
                                   last_insert_rowid := next_rowid ?d\<rparr>))"
    and q: "submitJobToQueue accepting_printer
              (Some (?d\<lparr>PrintJob := PrintJob ?d @ [r], seq := next_rowid ?d,
                        last_insert_rowid := next_rowid ?d\<rparr>))
              (next_rowid ?d) ''/uploads/b.png'' (Obj ?s)
            = (Inl (Error (''Job submission error: Invalid print settings: ''
                            @ join '', '' (errors (validatePrintSettings (Obj ?s))))),
               Some (?d\<lparr>PrintJob := PrintJob ?d @ [r], seq := next_rowid ?d,
                        last_insert_rowid := next_rowid ?d\<rparr>))"
    using create_then_submit_invalid_settings_row_persisted
            [OF v, of ?jd ?d 1704153570000 accepting_printer "''/uploads/b.png''"]
    by auto
  from c c' have r: "r = ?new"
    by (simp add: n)
  from q have "submitJobToQueue accepting_printer (Some ?after) 5 ''/uploads/b.png'' (Obj ?s)
                 = (Inl (Error ''Job submission error: Invalid print settings: Invalid print quality: 300''),
                    Some ?after)"
    unfolding r n e by simp
  with v c show ?thesis by simp
qed

text \<open>
  C6. For every job in the store with status pending, submitted with settings that the
  gateway's validation accepts: when the device submission returns failure, the
  submission path returns the device's result, failure message included, and the store
  unchanged, so the job is still pending; when the device submission returns success,
  the device's result is returned and the job's stored status is in-progress.
\<close>

theorem submitJobToQueue_failure_keeps_pending:
  assumes "getPrintJob h (Some (int jid)) = Inr (Some j)" and "status j = ''pending''"
    and "valid (validatePrintSettings so)"
  shows "if success (submitJobToPrinter docPath so)
         then \<exists>h'. submitJobToQueue submitJobToPrinter h jid docPath so
                       = (Inr (submitJobToPrinter docPath so), h')
                \<and> getPrintJob h' (Some (int jid)) = Inr (Some (j\<lparr>status := ''in-progress''\<rparr>))
         else submitJobToQueue submitJobToPrinter h jid docPath so
                = (Inr (submitJobToPrinter docPath so), h)
              \<and> getPrintJob h (Some (int jid)) = Inr (Some j) \<and> status j = ''pending''"
proof (cases "success (submitJobToPrinter docPath so)")
  case True
  obtain r h' where u: "updatePrintJobStatus h (int jid) ''in-progress'' = (Inr r, h')"
    and g: "getPrintJob h' (Some (int jid)) = Inr (Some (j\<lparr>status := ''in-progress''\<rparr>))"
    using getPrintJob_after_update [OF assms(1)] by blast
  from True assms u
  have "submitJobToQueue submitJobToPrinter h jid docPath so = (Inr (submitJobToPrinter docPath so), h')"
    by (simp add: submitJobToQueue_def Let_def)
  with g True show ?thesis by simp
next
  case False
  with assms show ?thesis by (simp add: submitJobToQueue_def Let_def)
qed

lemma createPrintJob_in_empty_table:
  "createPrintJob 1704153570000 (Some \<lparr>User = [1], PrintJob = [], seq = 0, last_insert_rowid = 0\<rparr>)
     \<lparr>paperType = JUndefined, printQuality = JUndefined, colorMode = JUndefined,
      paperSize = JUndefined, userId = 1, documentName = ''a.pdf'',
      documentPath = ''/uploads/a.pdf''\<rparr>
     = (Inr 1, Some \<lparr>User = [1],
                       PrintJob = [job_row 1 1 ''pending'' ''2024-01-01 23:59:30'' None],
                       seq = 1, last_insert_rowid = 1\<rparr>)"
  by code_simp

text \<open>
  User 1 creates a job for a.pdf in an empty table and submits it with the default
  settings to a printer that times out: the failure message comes back and the table
  still holds the job as pending.
\<close>

theorem submitJobToQueue_failure_keeps_pending_witness:
  "createPrintJob 1704153570000 (Some \<lparr>User = [1], PrintJob = [], seq = 0, last_insert_rowid = 0\<rparr>)
     \<lparr>paperType = JUndefined, printQuality = JUndefined, colorMode = JUndefined,
      paperSize = JUndefined, userId = 1, documentName = ''a.pdf'',
      documentPath = ''/uploads/a.pdf''\<rparr>
     = (Inr 1, Some \<lparr>User = [1],
                       PrintJob = [job_row 1 1 ''pending'' ''2024-01-01 23:59:30'' None],
                       seq = 1, last_insert_rowid = 1\<rparr>)
   \<and> valid (validatePrintSettings (Obj getDefaults))
   \<and> submitJobToQueue timeout_printer
        (Some \<lparr>User = [1],
               PrintJob = [job_row 1 1 ''pending'' ''2024-01-01 23:59:30'' None],
               seq = 1, last_insert_rowid = 1\<rparr>) 1 ''/uploads/a.pdf'' (Obj getDefaults)
     = (Inr \<lparr>message = ''Failed to submit job to printer: Printer communication timeout'',
             success = False, jobId = JNull\<rparr>,
        Some \<lparr>User = [1],
              PrintJob = [job_row 1 1 ''pending'' ''2024-01-01 23:59:30'' None],
              seq = 1, last_insert_rowid = 1\<rparr>)"
proof -
  let ?start = "Some \<lparr>User = [1], PrintJob = [], seq = 0, last_insert_rowid = 0\<rparr>"
  let ?jd = "\<lparr>paperType = JUndefined, printQuality = JUndefined, colorMode = JUndefined,
              paperSize = JUndefined, userId = 1, documentName = ''a.pdf'',
              documentPath = ''/uploads/a.pdf''\<rparr>"
  let ?h = "Some \<lparr>User = [1],
                  PrintJob = [job_row 1 1 ''pending'' ''2024-01-01 23:59:30'' None],
                  seq = 1, last_insert_rowid = 1\<rparr>"
  have c: "createPrintJob 1704153570000 ?start ?jd = (Inr 1, ?h)"
    by (rule createPrintJob_in_empty_table)
  obtain j where g: "getPrintJob ?h (Some (int 1)) = Inr (Some j)" and p: "status j = ''pending''"
    using createPrintJob_stores_pending [OF c] by blast
  have v: "valid (validatePrintSettings (Obj getDefaults))"
    by code_simp
  have f: "\<not> success (timeout_printer ''/uploads/a.pdf'' (Obj getDefaults))"
    by (simp add: timeout_printer_def)
  have "submitJobToQueue timeout_printer ?h 1 ''/uploads/a.pdf'' (Obj getDefaults)
          = (Inr (timeout_printer ''/uploads/a.pdf'' (Obj getDefaults)), ?h)"
    using submitJobToQueue_failure_keeps_pending [OF g p v, of timeout_printer "''/uploads/a.pdf''"] f
    by simp
  with c v show ?thesis
    by (simp add: timeout_printer_def)
qed

section \<open>Properties of the status check\<close>

lemma isJobInQueue_not_exported: "''isJobInQueue'' \<notin> set printerIntegration_exports"
  by (simp add: printerIntegration_exports_def)

lemma call_isJobInQueue:
  "call_export printerIntegration_exports ''isJobInQueue'' body
     = Inl (TypeError ''printerIntegration.isJobInQueue is not a function'')"
  by (simp add: call_export_def isJobInQueue_not_exported)

text \<open>The only write of the handler: \<open>completed\<close> over \<open>in-progress\<close>, on the job asked for.\<close>

lemma controller_only_write:
  "snd (jobController_updateJobStatus exports f h p se) = h
   \<or> (\<exists>j. getPrintJob h (parseInt10 p) = Inr (Some j) \<and> status j = ''in-progress''
          \<and> snd (jobController_updateJobStatus exports f h p se)
              = snd (updatePrintJobStatus h (int (row_id j)) ''completed''))"
  by (auto simp: jobController_updateJobStatus_def PrintJob_updateJobStatus_def
      split: sum.splits option.splits prod.splits)

lemma controller_terminal_unchanged:
  assumes "getPrintJob h (parseInt10 p) = Inr (Some j)" and "status j \<noteq> ''in-progress''"
  shows "snd (jobController_updateJobStatus exports f h p se) = h"
  using assms controller_only_write [of exports f h p se] by auto

text \<open>
  C4. For every request whose job id parameter is accepted and names an existing job
  owned by the caller, the status reconciliation answers HTTP 500 with the error
  \<open>Failed to update job status\<close> and leaves the store as it was, whatever a function
  \<open>isJobInQueue\<close> would compute: the printer integration module exports no such name,
  the call raises, and the handler's catch reports it.
\<close>

theorem reconcile_always_fails:
  assumes "p \<noteq> []" and "\<not> string_isNaN p"
    and "getPrintJob h (parseInt10 p) = Inr (Some j)"
    and "session_userId se = Some (userId j)"
  shows "reconcile isJobInQueue h p se = (JsonError 500 ''Failed to update job status'', h)"
  using assms
  by (simp add: reconcile_def jobController_updateJobStatus_def call_isJobInQueue update_failed_def)

text \<open>User 2 asks for the status of the pending job 3, which is theirs, as \<open>" 3"\<close>.\<close>

theorem reconcile_always_fails_witness:
  "\<not> string_isNaN '' 3''
   \<and> getPrintJob (Some \<lparr>User = [1, 2],
                        PrintJob = [job_row 1 1 ''completed'' ''2024-01-01 10:00:00'' None,
                                    job_row 3 2 ''pending'' ''2024-01-01 12:00:00'' None],
                        seq = 3, last_insert_rowid = 3\<rparr>) (parseInt10 '' 3'')
       = Inr (Some (job_row 3 2 ''pending'' ''2024-01-01 12:00:00'' None))
   \<and> reconcile gone_from_queue
        (Some \<lparr>User = [1, 2],
               PrintJob = [job_row 1 1 ''completed'' ''2024-01-01 10:00:00'' None,
                           job_row 3 2 ''pending'' ''2024-01-01 12:00:00'' None],
               seq = 3, last_insert_rowid = 3\<rparr>)
        '' 3'' \<lparr>session_userId = Some 2, uploadedFile = None, printSettings = None\<rparr>
     = (JsonError 500 ''Failed to update job status'',
        Some \<lparr>User = [1, 2],
              PrintJob = [job_row 1 1 ''completed'' ''2024-01-01 10:00:00'' None,
                          job_row 3 2 ''pending'' ''2024-01-01 12:00:00'' None],
              seq = 3, last_insert_rowid = 3\<rparr>)"
proof -
  let ?h = "Some \<lparr>User = [1, 2],
                  PrintJob = [job_row 1 1 ''completed'' ''2024-01-01 10:00:00'' None,
                              job_row 3 2 ''pending'' ''2024-01-01 12:00:00'' None],
                  seq = 3, last_insert_rowid = 3\<rparr>"
  let ?se = "\<lparr>session_userId = Some 2, uploadedFile = None, printSettings = None\<rparr>"
  have e: "'' 3'' \<noteq> []" by simp
  have n: "\<not> string_isNaN '' 3''" by code_simp
  have g: "getPrintJob ?h (parseInt10 '' 3'') = Inr (Some (job_row 3 2 ''pending'' ''2024-01-01 12:00:00'' None))"
    by code_simp
  have o: "session_userId ?se = Some (userId (job_row 3 2 ''pending'' ''2024-01-01 12:00:00'' None))"
    by (simp add: job_row_def)
  from n g reconcile_always_fails [OF e n g o, of gone_from_queue] show ?thesis
    by simp
qed

text \<open>
  C3, as stated, fails: the model's exported \<open>updateJobStatus\<close> sets the completed job 1
  back to pending.
\<close>

theorem updateJobStatus_terminal_counterexample:
  "PrintJob_updateJobStatus
     (Some \<lparr>User = [1],
            PrintJob = [job_row 1 1 ''completed'' ''2024-01-01 23:59:30'' (Some ''2024-01-02 00:00:30'')],
            seq = 1, last_insert_rowid = 1\<rparr>)
     1 ''pending''
   = (Inr \<lparr>lastID = 1, changes = 1\<rparr>,
      Some \<lparr>User = [1],
            PrintJob = [job_row 1 1 ''pending'' ''2024-01-01 23:59:30'' (Some ''2024-01-02 00:00:30'')],
            seq = 1, last_insert_rowid = 1\<rparr>)"
  by code_simp

text \<open>
  C3, amended. For every job whose status is completed or failed, the reconcile
  operation (the controller's \<open>updateJobStatus\<close>, over any module and any queue check)
  leaves the store unchanged: its only write is completed over a stored in-progress. The
  model's setter \<open>updateJobStatus\<close> does not read the stored status: it writes any of
  pending, in-progress, completed and failed over any stored status, a terminal one
  included, and refuses only a status outside these four, leaving the store unchanged.
  The order pending, in-progress, completed or failed is not enforced by the code.
\<close>

theorem terminal_kept_by_reconcile_not_by_setter:
  "(getPrintJob h (parseInt10 p) = Inr (Some j) \<and> status j \<in> set [''completed'', ''failed'']
      \<longrightarrow> snd (jobController_updateJobStatus exports isJobInQueue h p se) = h)
   \<and> (getPrintJob h (Some n) = Inr (Some k)
        \<and> st \<in> set [''pending'', ''in-progress'', ''completed'', ''failed'']
      \<longrightarrow> (\<exists>r h'. PrintJob_updateJobStatus h n st = (Inr r, h')
                  \<and> getPrintJob h' (Some n) = Inr (Some (k\<lparr>status := st\<rparr>))))
   \<and> (st \<notin> set [''pending'', ''in-progress'', ''completed'', ''failed'']
      \<longrightarrow> (\<exists>e. PrintJob_updateJobStatus h n st = (Inl e, h)))"
proof (intro conjI impI)
  assume "getPrintJob h (parseInt10 p) = Inr (Some j) \<and> status j \<in> set [''completed'', ''failed'']"
  then have "getPrintJob h (parseInt10 p) = Inr (Some j)" and "status j \<noteq> ''in-progress''"
    by auto
  then show "snd (jobController_updateJobStatus exports isJobInQueue h p se) = h"
    by (rule controller_terminal_unchanged)
next
  assume a: "getPrintJob h (Some n) = Inr (Some k)
             \<and> st \<in> set [''pending'', ''in-progress'', ''completed'', ''failed'']"
  then have "PrintJob_updateJobStatus h n st = updatePrintJobStatus h n st"
    by (simp add: PrintJob_updateJobStatus_def)
  with a getPrintJob_after_update [of h n k st]
  show "\<exists>r h'. PrintJob_updateJobStatus h n st = (Inr r, h')
                  \<and> getPrintJob h' (Some n) = Inr (Some (k\<lparr>status := st\<rparr>))"
    by simp
next
  assume "st \<notin> set [''pending'', ''in-progress'', ''completed'', ''failed'']"
  then show "\<exists>e. PrintJob_updateJobStatus h n st = (Inl e, h)"
    by (simp add: PrintJob_updateJobStatus_def)
qed

text \<open>
  Job 1 is completed. A module that did export \<open>isJobInQueue\<close>, reporting the job gone,
  leaves it alone; the setter turns it into failed.
\<close>

theorem terminal_kept_by_reconcile_not_by_setter_witness:
  "snd (jobController_updateJobStatus [''isJobInQueue''] gone_from_queue
          (Some \<lparr>User = [1],
                 PrintJob = [job_row 1 1 ''completed'' ''2024-01-01 23:59:30'' None],
                 seq = 1, last_insert_rowid = 1\<rparr>)
          ''1'' \<lparr>session_userId = Some 1, uploadedFile = None, printSettings = None\<rparr>)
     = Some \<lparr>User = [1],
             PrintJob = [job_row 1 1 ''completed'' ''2024-01-01 23:59:30'' None],
             seq = 1, last_insert_rowid = 1\<rparr>
   \<and> getPrintJob
        (snd (PrintJob_updateJobStatus
                (Some \<lparr>User = [1],
                       PrintJob = [job_row 1 1 ''completed'' ''2024-01-01 23:59:30'' None],
                       seq = 1, last_insert_rowid = 1\<rparr>) 1 ''failed''))
        (Some 1)
     = Inr (Some (job_row 1 1 ''failed'' ''2024-01-01 23:59:30'' None))"
proof -
  let ?j = "job_row 1 1 ''completed'' ''2024-01-01 23:59:30'' None"
  let ?h = "Some \<lparr>User = [1], PrintJob = [?j], seq = 1, last_insert_rowid = 1\<rparr>"
  let ?se = "\<lparr>session_userId = Some 1, uploadedFile = None, printSettings = None\<rparr>"
  note t = terminal_kept_by_reconcile_not_by_setter
             [of ?h "''1''" ?j "[''isJobInQueue'']" gone_from_queue ?se 1 ?j "''failed''"]
  have g: "getPrintJob ?h (parseInt10 ''1'') = Inr (Some ?j)"
    by code_simp
  have s: "status ?j \<in> set [''completed'', ''failed'']"
    by (simp add: job_row_def)
  have g1: "getPrintJob ?h (Some 1) = Inr (Some ?j)"
    by (simp add: getPrintJob_def job_row_def)
  have v: "''failed'' \<in> set [''pending'', ''in-progress'', ''completed'', ''failed'']"
    by simp
  have u: "?j\<lparr>status := ''failed''\<rparr> = job_row 1 1 ''failed'' ''2024-01-01 23:59:30'' None"
    by (simp add: job_row_def)
  from t g s have a: "snd (jobController_updateJobStatus [''isJobInQueue''] gone_from_queue ?h ''1'' ?se) = ?h"
    by blast
  from t g1 v obtain r h' where "PrintJob_updateJobStatus ?h 1 ''failed'' = (Inr r, h')"
    and "getPrintJob h' (Some 1) = Inr (Some (?j\<lparr>status := ''failed''\<rparr>))"
    by blast
  then have b: "getPrintJob (snd (PrintJob_updateJobStatus ?h 1 ''failed'')) (Some 1)
                  = Inr (Some (job_row 1 1 ''failed'' ''2024-01-01 23:59:30'' None))"
    using u by simp
  from a b show ?thesis by simp
qed

text \<open>
  C2 fails on the code. Job 1 is in progress, its owner asks for reconciliation, and the
  device no longer lists it. The handler answers HTTP 500 and the row keeps status
  in-progress and no completion timestamp, because the function it calls is not exported.
  Were the function exported, the handler would set the status to completed through
  the status-only update and still leave \<open>completedAt\<close> empty, where \<open>completeJob\<close>,
  which it does not call, writes both.
\<close>

theorem reconcile_in_progress_job_not_completed:
  "reconcile gone_from_queue
     (Some \<lparr>User = [1],
            PrintJob = [job_row 1 1 ''in-progress'' ''2024-01-01 23:59:30'' None],
            seq = 1, last_insert_rowid = 1\<rparr>)
     ''1'' \<lparr>session_userId = Some 1, uploadedFile = None, printSettings = None\<rparr>
   = (JsonError 500 ''Failed to update job status'',
      Some \<lparr>User = [1],
            PrintJob = [job_row 1 1 ''in-progress'' ''2024-01-01 23:59:30'' None],
            seq = 1, last_insert_rowid = 1\<rparr>)
   \<and> jobController_updateJobStatus [''isJobInQueue''] gone_from_queue
     (Some \<lparr>User = [1],
            PrintJob = [job_row 1 1 ''in-progress'' ''2024-01-01 23:59:30'' None],
            seq = 1, last_insert_rowid = 1\<rparr>)
     ''1'' \<lparr>session_userId = Some 1, uploadedFile = None, printSettings = None\<rparr>
   = (JsonStatus 1 ''completed'' True,
      Some \<lparr>User = [1],
            PrintJob = [job_row 1 1 ''completed'' ''2024-01-01 23:59:30'' None],
            seq = 1, last_insert_rowid = 1\<rparr>)
   \<and> completeJob 1704153630000
     (Some \<lparr>User = [1],
            PrintJob = [job_row 1 1 ''in-progress'' ''2024-01-01 23:59:30'' None],
            seq = 1, last_insert_rowid = 1\<rparr>) 1
   = (Inr \<lparr>lastID = 1, changes = 1\<rparr>,
      Some \<lparr>User = [1],
            PrintJob = [job_row 1 1 ''completed'' ''2024-01-01 23:59:30'' (Some ''2024-01-02 00:00:30'')],
            seq = 1, last_insert_rowid = 1\<rparr>)"
  by code_simp

section \<open>Properties of the retention sweep\<close>

text \<open>
  C5 fails on the code. The sweep runs at 2024-01-02 00:00:30 UTC (clock value
  1704153630000); job 1 was submitted one minute earlier, so \<open>CURRENT_TIMESTAMP\<close> stored
  \<open>2024-01-01 23:59:30\<close>. The bound parameter is the ISO string
  \<open>2024-01-01T00:00:30.000Z\<close>. The two texts agree on the date, and at the next
  character the space of the stored text is smaller than the \<open>T\<close> of the parameter: the
  row compares as older than one day and is deleted.
\<close>

theorem cleanupOldPrintJobs_deletes_recent_job:
  "CURRENT_TIMESTAMP (1704153630000 - 60000) = ''2024-01-01 23:59:30''
   \<and> toISOString (1704153630000 - ONE_DAY_MS) = Inr ''2024-01-01T00:00:30.000Z''
   \<and> cleanupOldPrintJobs 1704153630000
        (Some \<lparr>User = [1],
               PrintJob = [job_row 1 1 ''pending'' ''2024-01-01 23:59:30'' None],
               seq = 1, last_insert_rowid = 1\<rparr>)
     = (\<lparr>message = ''Cleaned up 1 old print job(s) from database'', deleted = 1\<rparr>,
        Some \<lparr>User = [1], PrintJob = [], seq = 1, last_insert_rowid = 1\<rparr>)"
  by code_simp

end
